theory Spec2Isabelle
  imports Main "HOL-Library.Sublist" "HOL-Library.Multiset"
begin

section \<open>The recommendation endpoint of the menu recommender\<close>

text \<open>
  The server of the repository answers \<^verbatim>\<open>POST /recommend\<close>: it splits the menu text
  into dish lines, looks every catalog ingredient up in every line, scores the line against
  the taste profile and sorts the dishes by score. This theory embeds that handler.

  Modelling decisions.
  \<^item> A JavaScript string is a \<open>string\<close>: a list of code units, here restricted to the
    code points U+0000 to U+00FF, on which \<^verbatim>\<open>toLowerCase\<close> maps one unit to one unit.
  \<^item> The score is a JavaScript number that only ever holds small integers
    (it moves by 2 or 1 per catalog entry), so it is an \<open>int\<close>.
  \<^item> The request body is well typed: \<^verbatim>\<open>menuText\<close> is a string or absent,
    \<^verbatim>\<open>profile\<close> is an object with the three id arrays or absent.
  \<^item> The catalog is read from a data file once; the handler takes it as a parameter.
  \<^item> \<^verbatim>\<open>Array.prototype.sort\<close> is a stable sort (ECMAScript 2019); with a comparator
    that is a total preorder the result of a stable sort is unique, and the model computes
    it by stable insertion.
\<close>

subsection \<open>Data\<close>

record Ingredient =
  ing_id :: string
  name :: string
  aliases :: "string list"

record TasteProfile =
  like :: "string list"
  dislike :: "string list"
  avoid :: "string list"

text \<open>The four local variables the loop over the catalog updates.\<close>

record Tally =
  score :: int
  matchedLiked :: "string list"
  matchedDisliked :: "string list"
  matchedAvoid :: "string list"

text \<open>The object returned for one dish line: the four values of the loop together with the
  line itself and the explanation.\<close>

record DishMatch = Tally +
  dish :: string
  explanation :: string

record Request =
  menuText :: "string option"
  profile :: "TasteProfile option"

datatype error = MissingData

subsection \<open>Strings\<close>

text \<open>\<^verbatim>\<open>toLowerCase\<close> on U+0000..U+00FF: A-Z and the Latin-1 capitals
  U+00C0..U+00DE other than the multiplication sign U+00D7 move up by 32.\<close>

definition lowerChar :: "char \<Rightarrow> char" where
  "lowerChar c =
     (let n = (of_char c :: nat)
      in if (65 \<le> n \<and> n \<le> 90) \<or> (192 \<le> n \<and> n \<le> 214) \<or> (216 \<le> n \<and> n \<le> 222)
         then char_of (n + 32) else c)"

definition toLowerCase :: "string \<Rightarrow> string" where
  "toLowerCase s = map lowerChar s"

text \<open>\<^verbatim>\<open>s.includes(pat)\<close>: \<open>pat\<close> occurs in \<open>s\<close> as a contiguous run.\<close>

fun startsWith :: "string \<Rightarrow> string \<Rightarrow> bool" where
  "startsWith s [] = True"
| "startsWith [] (p # ps) = False"
| "startsWith (c # cs) (p # ps) = (c = p \<and> startsWith cs ps)"

fun str_includes :: "string \<Rightarrow> string \<Rightarrow> bool" where
  "str_includes [] pat = (pat = [])"
| "str_includes (c # cs) pat = (startsWith (c # cs) pat \<or> str_includes cs pat)"

text \<open>\<^verbatim>\<open>s.split("\n")\<close>: the pieces between line feeds; never an empty array.\<close>

fun split_nl :: "string \<Rightarrow> string list" where
  "split_nl [] = [[]]"
| "split_nl (c # cs) =
     (if c = CHR 0x0A then [] # split_nl cs
      else (case split_nl cs of [] \<Rightarrow> [[c]] | l # ls \<Rightarrow> (c # l) # ls))"

text \<open>\<^verbatim>\<open>xs.join(", ")\<close>.\<close>

fun join_comma :: "string list \<Rightarrow> string" where
  "join_comma [] = []"
| "join_comma [x] = x"
| "join_comma (x # y # ys) = x @ '', '' @ join_comma (y # ys)"

subsection \<open>Scoring one dish line\<close>

text \<open>The match test of the loop body: the lowered line contains the name or an alias.
  The catalog strings are used as they are stored.\<close>

definition matches :: "string \<Rightarrow> Ingredient \<Rightarrow> bool" where
  "matches lowerDish ing =
     (str_includes lowerDish (name ing) \<or> list_ex (\<lambda>a. str_includes lowerDish a) (aliases ing))"

text \<open>One pass of the body of \<^verbatim>\<open>ingredients.forEach\<close>.\<close>

definition scoreStep :: "TasteProfile \<Rightarrow> string \<Rightarrow> Tally \<Rightarrow> Ingredient \<Rightarrow> Tally" where
  "scoreStep p lowerDish t ing =
     (if \<not> matches lowerDish ing then t
      else if ing_id ing \<in> set (avoid p)
        then t\<lparr>matchedAvoid := matchedAvoid t @ [name ing], score := - 999\<rparr>
      else if ing_id ing \<in> set (like p)
        then t\<lparr>matchedLiked := matchedLiked t @ [name ing], score := score t + 2\<rparr>
      else if ing_id ing \<in> set (dislike p)
        then t\<lparr>matchedDisliked := matchedDisliked t @ [name ing], score := score t - 1\<rparr>
      else t)"

definition tally0 :: Tally where
  "tally0 = \<lparr>score = 0, matchedLiked = [], matchedDisliked = [], matchedAvoid = []\<rparr>"

definition tallyDish :: "Ingredient list \<Rightarrow> TasteProfile \<Rightarrow> string \<Rightarrow> Tally" where
  "tallyDish ingredients p d = foldl (scoreStep p (toLowerCase d)) tally0 ingredients"

definition explain :: "Tally \<Rightarrow> string" where
  "explain t =
     (if length (matchedAvoid t) > 0
      then ''Rejected due to avoid ingredients: '' @ join_comma (matchedAvoid t)
      else ''Matches liked: '' @
           (if join_comma (matchedLiked t) = [] then ''none'' else join_comma (matchedLiked t)))"

text \<open>The callback of \<^verbatim>\<open>dishes.map\<close>.\<close>

definition scoreDish :: "Ingredient list \<Rightarrow> TasteProfile \<Rightarrow> string \<Rightarrow> DishMatch" where
  "scoreDish ingredients p d =
     (let t = tallyDish ingredients p d
      in \<lparr>score = score t, matchedLiked = matchedLiked t, matchedDisliked = matchedDisliked t,
          matchedAvoid = matchedAvoid t, dish = d, explanation = explain t\<rparr>)"

subsection \<open>The handler\<close>

text \<open>\<^verbatim>\<open>menuText.split("\n").filter(Boolean)\<close>: the lines that are not the empty string.\<close>

definition dishes :: "string \<Rightarrow> string list" where
  "dishes text = filter (\<lambda>l. l \<noteq> []) (split_nl text)"

text \<open>\<^verbatim>\<open>results.sort((a, b) => b.score - a.score)\<close>: stable, greater score first.\<close>

definition sortResults :: "DishMatch list \<Rightarrow> DishMatch list" where
  "sortResults rs = sort_key (\<lambda>r. - score r) rs"

definition results :: "Ingredient list \<Rightarrow> TasteProfile \<Rightarrow> string \<Rightarrow> DishMatch list" where
  "results ingredients p text = map (scoreDish ingredients p) (dishes text)"

text \<open>The handler: status 400 with \<^verbatim>\<open>Missing data\<close> when \<^verbatim>\<open>!menuText || !profile\<close>
  (an absent or empty text, an absent profile), the sorted results otherwise.\<close>

definition recommend :: "Ingredient list \<Rightarrow> Request \<Rightarrow> error + DishMatch list" where
  "recommend ingredients req =
     (case menuText req of
        None \<Rightarrow> Inl MissingData
      | Some text \<Rightarrow>
          if text = [] then Inl MissingData
          else (case profile req of
                  None \<Rightarrow> Inl MissingData
                | Some p \<Rightarrow> Inr (sortResults (results ingredients p text))))"

subsection \<open>Notions the statements use\<close>

text \<open>The resolved ingredients of a dish line: the catalog entries, in catalog order, that
  pass the match test of the loop body (those for which the body does not return early).\<close>

definition resolved :: "Ingredient list \<Rightarrow> string \<Rightarrow> Ingredient list" where
  "resolved ingredients d = filter (matches (toLowerCase d)) ingredients"

text \<open>The entries whose id is in an id array (\<^verbatim>\<open>ids.includes(ing.id)\<close>), and the others.\<close>

definition inBucket :: "string list \<Rightarrow> Ingredient list \<Rightarrow> Ingredient list" where
  "inBucket ids xs = filter (\<lambda>i. ing_id i \<in> set ids) xs"

definition outOfBucket :: "string list \<Rightarrow> Ingredient list \<Rightarrow> Ingredient list" where
  "outOfBucket ids xs = filter (\<lambda>i. ing_id i \<notin> set ids) xs"

text \<open>\<open>pat\<close> occurs in \<open>text\<close> as a case-insensitive substring: the lowered pattern is a
  contiguous part of the lowered text.\<close>

definition occurs_ci :: "string \<Rightarrow> string \<Rightarrow> bool" where
  "occurs_ci pat text = sublist (toLowerCase pat) (toLowerCase text)"

definition anyAliasOccurs :: "Ingredient \<Rightarrow> string \<Rightarrow> bool" where
  "anyAliasOccurs ing text = list_ex (\<lambda>a. occurs_ci a text) (aliases ing)"

definition storedLower :: "Ingredient \<Rightarrow> bool" where
  "storedLower ing =
     (toLowerCase (name ing) = name ing \<and> list_all (\<lambda>a. toLowerCase a = a) (aliases ing))"

text \<open>\<^verbatim>\<open>l.trim()\<close> on U+0000..U+00FF, and the line splitting of the client-side engine of the
  same repository (\<^verbatim>\<open>onRecommend\<close> in \<^verbatim>\<open>App.jsx\<close>):
  \<^verbatim>\<open>menuText.split("\n").map((l) => l.trim()).filter(Boolean)\<close>.\<close>

definition isWhiteSpace :: "char \<Rightarrow> bool" where
  "isWhiteSpace c = (of_char c \<in> {9, 10, 11, 12, 13, 32, 160 :: nat})"

definition trim :: "string \<Rightarrow> string" where
  "trim s = rev (dropWhile isWhiteSpace (rev (dropWhile isWhiteSpace s)))"

definition trimmedLines :: "string \<Rightarrow> string list" where
  "trimmedLines text = filter (\<lambda>l. l \<noteq> []) (map trim (split_nl text))"

text \<open>No line of the text consists of whitespace only: every line is the empty string or
  has something left after trimming.\<close>

definition noBlankLines :: "string \<Rightarrow> bool" where
  "noBlankLines text = list_all (\<lambda>l. l = [] \<or> trim l \<noteq> []) (split_nl text)"

subsection \<open>Concrete inputs\<close>

definition garlic :: Ingredient where
  "garlic = \<lparr>ing_id = ''i1'', name = ''garlic'', aliases = []\<rparr>"

definition peanuts :: Ingredient where
  "peanuts = \<lparr>ing_id = ''i2'', name = ''peanuts'', aliases = [''groundnut'']\<rparr>"

definition cilantro :: Ingredient where
  "cilantro = \<lparr>ing_id = ''i3'', name = ''cilantro'', aliases = [''coriander leaf'']\<rparr>"

definition olives :: Ingredient where
  "olives = \<lparr>ing_id = ''i4'', name = ''olives'', aliases = [''olive'']\<rparr>"

definition capitalGarlic :: Ingredient where
  "capitalGarlic = \<lparr>ing_id = ''i1'', name = ''Garlic'', aliases = []\<rparr>"

definition nutA :: Ingredient where
  "nutA = \<lparr>ing_id = ''n1'', name = ''nut'', aliases = []\<rparr>"

definition nutB :: Ingredient where
  "nutB = \<lparr>ing_id = ''n2'', name = ''nut'', aliases = []\<rparr>"

definition scenarioCatalog :: "Ingredient list" where
  "scenarioCatalog = [garlic, peanuts]"

definition catalog4 :: "Ingredient list" where
  "catalog4 = [garlic, peanuts, cilantro, olives]"

definition scenarioProfile :: TasteProfile where
  "scenarioProfile = \<lparr>like = [''i1''], dislike = [], avoid = [''i2'']\<rparr>"

definition scenarioMenu :: string where
  "scenarioMenu = ''Garlic Chicken'' @ [CHR 0x0A] @ ''Peanut Satay''"

definition scenarioRequest :: Request where
  "scenarioRequest = \<lparr>menuText = Some scenarioMenu, profile = Some scenarioProfile\<rparr>"

definition overlapProfile :: TasteProfile where
  "overlapProfile = \<lparr>like = [''i1''], dislike = [''i1''], avoid = []\<rparr>"

definition tasteProfile4 :: TasteProfile where
  "tasteProfile4 = \<lparr>like = [''i1''], dislike = [''i3'', ''i4''], avoid = [''i2'']\<rparr>"

definition nutProfile :: TasteProfile where
  "nutProfile = \<lparr>like = [''n1''], dislike = [], avoid = [''n2'']\<rparr>"

definition blankLineMenu :: string where
  "blankLineMenu = ''Soup'' @ [CHR 0x0A] @ ''  '' @ [CHR 0x0A] @ ''Salad''"

definition tieMenu :: string where
  "tieMenu = ''Soup'' @ [CHR 0x0A] @ ''Garlic Bread'' @ [CHR 0x0A] @ ''Salad''"

definition paddedMenu :: string where
  "paddedMenu = ''Garlic Chicken '' @ [CHR 0x0A, CHR 0x0A] @ ''  Peanuts''"

definition paddedRequest :: Request where
  "paddedRequest = \<lparr>menuText = Some paddedMenu, profile = Some scenarioProfile\<rparr>"

definition blankLineRequest :: Request where
  "blankLineRequest = \<lparr>menuText = Some blankLineMenu, profile = Some scenarioProfile\<rparr>"

definition tieRequest :: Request where
  "tieRequest = \<lparr>menuText = Some tieMenu, profile = Some scenarioProfile\<rparr>"

definition tieResults :: "DishMatch list" where
  "tieResults =
     [\<lparr>score = 2, matchedLiked = [''garlic''], matchedDisliked = [], matchedAvoid = [],
       dish = ''Garlic Bread'', explanation = ''Matches liked: garlic''\<rparr>,
      \<lparr>score = 0, matchedLiked = [], matchedDisliked = [], matchedAvoid = [],
       dish = ''Soup'', explanation = ''Matches liked: none''\<rparr>,
      \<lparr>score = 0, matchedLiked = [], matchedDisliked = [], matchedAvoid = [],
       dish = ''Salad'', explanation = ''Matches liked: none''\<rparr>]"

section \<open>What the loop over the catalog computes\<close>

text \<open>Each matched list is its starting value followed by the names of the entries that take
  the corresponding branch, in catalog order.\<close>

lemma avoid_foldl:
  "matchedAvoid (foldl (scoreStep p ld) t xs) =
     matchedAvoid t @ map name (inBucket (avoid p) (filter (matches ld) xs))"
  by (induction xs arbitrary: t) (simp_all add: scoreStep_def inBucket_def)

lemma liked_foldl:
  "matchedLiked (foldl (scoreStep p ld) t xs) =
     matchedLiked t @
     map name (inBucket (like p) (outOfBucket (avoid p) (filter (matches ld) xs)))"
  by (induction xs arbitrary: t) (simp_all add: scoreStep_def inBucket_def outOfBucket_def)

lemma disliked_foldl:
  "matchedDisliked (foldl (scoreStep p ld) t xs) =
     matchedDisliked t @
     map name (inBucket (dislike p)
                 (outOfBucket (like p) (outOfBucket (avoid p) (filter (matches ld) xs))))"
  by (induction xs arbitrary: t) (simp_all add: scoreStep_def inBucket_def outOfBucket_def)

lemma score_foldl:
  "inBucket (avoid p) (filter (matches ld) xs) = [] \<Longrightarrow>
   score (foldl (scoreStep p ld) t xs) =
     score t + 2 * int (length (inBucket (like p) (filter (matches ld) xs)))
             - int (length (inBucket (dislike p) (outOfBucket (like p) (filter (matches ld) xs))))"
  by (induction xs arbitrary: t)
     (simp_all add: scoreStep_def inBucket_def outOfBucket_def split: if_splits)

lemma score_after_last_avoid:
  assumes "matches ld a" and "ing_id a \<in> set (avoid p)"
    and "inBucket (avoid p) (filter (matches ld) ys) = []"
  shows "score (foldl (scoreStep p ld) t (xs @ a # ys)) =
           - 999 + 2 * int (length (inBucket (like p) (filter (matches ld) ys)))
                 - int (length (inBucket (dislike p) (outOfBucket (like p) (filter (matches ld) ys))))"
proof -
  have "score (scoreStep p ld (foldl (scoreStep p ld) t xs) a) = - 999"
    using assms(1,2) by (simp add: scoreStep_def)
  with score_foldl [OF assms(3), of "scoreStep p ld (foldl (scoreStep p ld) t xs) a"]
  show ?thesis by simp
qed

lemma scoreDish_fields:
  "score (scoreDish c p d) = score (tallyDish c p d)"
  "matchedLiked (scoreDish c p d) = matchedLiked (tallyDish c p d)"
  "matchedDisliked (scoreDish c p d) = matchedDisliked (tallyDish c p d)"
  "matchedAvoid (scoreDish c p d) = matchedAvoid (tallyDish c p d)"
  "dish (scoreDish c p d) = d"
  by (simp_all add: scoreDish_def Let_def)

lemma matchedAvoid_scoreDish:
  "matchedAvoid (scoreDish c p d) = map name (inBucket (avoid p) (resolved c d))"
  by (simp add: scoreDish_fields tallyDish_def avoid_foldl tally0_def resolved_def)

lemma matchedLiked_scoreDish:
  "matchedLiked (scoreDish c p d) =
     map name (inBucket (like p) (outOfBucket (avoid p) (resolved c d)))"
  by (simp add: scoreDish_fields tallyDish_def liked_foldl tally0_def resolved_def)

lemma matchedDisliked_scoreDish:
  "matchedDisliked (scoreDish c p d) =
     map name (inBucket (dislike p) (outOfBucket (like p) (outOfBucket (avoid p) (resolved c d))))"
  by (simp add: scoreDish_fields tallyDish_def disliked_foldl tally0_def resolved_def)

text \<open>Facts used to evaluate the handler on a concrete request.\<close>

lemmas run_defs =
  recommend_def sortResults_def results_def dishes_def scoreDish_def tallyDish_def tally0_def
  scoreStep_def matches_def explain_def toLowerCase_def lowerChar_def resolved_def
  inBucket_def outOfBucket_def Let_def char_of_def bit_0

section \<open>Substring search\<close>

lemma startsWith_prefix: "startsWith s pat = prefix pat s"
  by (induction s pat rule: startsWith.induct) auto

lemma str_includes_sublist: "str_includes s pat = sublist pat s"
  by (induction s) (simp_all add: startsWith_prefix sublist_Cons_right)

section \<open>Counting names\<close>

lemma count_three_branches:
  "count_list (map f (inBucket l (outOfBucket a xs))) n
   + count_list (map f (inBucket d (outOfBucket l (outOfBucket a xs)))) n
   + count_list (map f (inBucket a xs)) n \<le> count_list (map f xs) n"
  by (induction xs) (auto simp: inBucket_def outOfBucket_def)

lemma count_filter_le: "count_list (map f (filter P xs)) n \<le> count_list (map f xs) n"
  by (induction xs) auto

lemma disjoint_names:
  assumes "distinct (map f xs)" and "\<And>x. x \<in> set xs \<Longrightarrow> \<not> (P x \<and> Q x)"
  shows "set (map f (filter P xs)) \<inter> set (map f (filter Q xs)) = {}"
proof -
  have inj: "inj_on f (set xs)" using assms(1) by (simp add: distinct_map)
  show ?thesis
  proof (rule ccontr)
    assume "set (map f (filter P xs)) \<inter> set (map f (filter Q xs)) \<noteq> {}"
    then obtain x y where x: "x \<in> set xs" "P x" and y: "y \<in> set xs" "Q y" and eq: "f x = f y"
      by auto
    from inj eq x(1) y(1) have "x = y" by (rule inj_onD)
    with x y assms(2) show False by blast
  qed
qed

section \<open>Lines and results\<close>

lemma mset_sortResults: "mset (sortResults rs) = mset rs"
  by (simp add: sortResults_def)

lemma dish_of_results: "map dish (results c p text) = dishes text"
  by (simp add: results_def scoreDish_fields comp_def)

lemma recommend_results:
  assumes "menuText req = Some text" and "text \<noteq> []" and "profile req = Some p"
  shows "recommend c req = Inr (sortResults (results c p text))"
  using assms by (simp add: recommend_def)

lemma result_length:
  assumes "recommend c req = Inr rs" and "menuText req = Some text"
  shows "length rs = length (dishes text)"
  using assms
  by (auto simp: recommend_def sortResults_def results_def split: if_splits option.splits)

lemma length_trimmedLines:
  "length (trimmedLines text) = length (filter (\<lambda>l. trim l \<noteq> []) (split_nl text))"
  by (simp add: trimmedLines_def filter_map comp_def)

lemma count_list_filter:
  "count_list (filter P xs) x = (if P x then count_list xs x else 0)"
  by (induction xs) auto

lemma trim_empty: "trim [] = []"
  by (simp add: trim_def)

lemma dishes_noBlankLines:
  assumes "noBlankLines text"
  shows "dishes text = filter (\<lambda>l. trim l \<noteq> []) (split_nl text)"
proof -
  have "\<And>l. l \<in> set (split_nl text) \<Longrightarrow> (l \<noteq> []) = (trim l \<noteq> [])"
    using assms trim_empty by (auto simp: noBlankLines_def list_all_iff)
  then show ?thesis unfolding dishes_def by (rule filter_cong [OF refl])
qed

section \<open>Properties of the handler\<close>

text \<open>
  C1. The avoid branch sets the score to -999, and the later passes of the loop go on adding
  to it. With peanuts (avoided) listed before garlic (liked), the line \<^verbatim>\<open>Garlic Peanuts\<close>
  resolves both and scores -997; with the two catalog entries in the other order it
  scores -999.
\<close>

theorem liked_after_avoid_changes_score:
  "matchedAvoid (scoreDish [peanuts, garlic] scenarioProfile ''Garlic Peanuts'') = [''peanuts'']
   \<and> score (scoreDish [peanuts, garlic] scenarioProfile ''Garlic Peanuts'') = - 997
   \<and> score (scoreDish [garlic, peanuts] scenarioProfile ''Garlic Peanuts'') = - 999"
  by (simp add: run_defs garlic_def peanuts_def scenarioProfile_def)

text \<open>
  C2. In the scenario the second line, lowered, is \<^verbatim>\<open>peanut satay\<close>. It contains neither
  \<^verbatim>\<open>peanuts\<close> nor \<^verbatim>\<open>groundnut\<close>, so the second dish of the output is
  \<^verbatim>\<open>Peanut Satay\<close> without the sentinel score and without peanuts among its avoid matches.
\<close>

theorem peanut_satay_not_rejected:
  "dish (projr (recommend scenarioCatalog scenarioRequest) ! 1) = ''Peanut Satay''
   \<and> score (projr (recommend scenarioCatalog scenarioRequest) ! 1) \<noteq> - 999
   \<and> matchedAvoid (projr (recommend scenarioCatalog scenarioRequest) ! 1) \<noteq> [''peanuts'']"
  by (simp add: run_defs garlic_def peanuts_def scenarioCatalog_def scenarioProfile_def scenarioMenu_def scenarioRequest_def)

text \<open>
  C2, as the code has it: the output of the scenario is \<^verbatim>\<open>Garlic Chicken\<close> with score 2
  and liked match garlic, followed by \<^verbatim>\<open>Peanut Satay\<close> with score 0 and no match at all.
\<close>

theorem scenario_output:
  "recommend scenarioCatalog scenarioRequest =
     Inr [\<lparr>score = 2, matchedLiked = [''garlic''], matchedDisliked = [], matchedAvoid = [],
           dish = ''Garlic Chicken'', explanation = ''Matches liked: garlic''\<rparr>,
          \<lparr>score = 0, matchedLiked = [], matchedDisliked = [], matchedAvoid = [],
           dish = ''Peanut Satay'', explanation = ''Matches liked: none''\<rparr>]"
  by (simp add: run_defs garlic_def peanuts_def scenarioCatalog_def scenarioProfile_def scenarioMenu_def scenarioRequest_def)

text \<open>
  C3. The guard at the top of the handler treats the empty string as missing data: with the
  scenario's catalog and profile and the empty menu text, the answer is the error, not the
  empty result sequence.
\<close>

theorem empty_text_is_not_empty_result:
  "recommend scenarioCatalog \<lparr>menuText = Some [], profile = Some scenarioProfile\<rparr> \<noteq> Inr []"
  by (simp add: recommend_def)

text \<open>
  C3, as the code has it: for every catalog and profile the empty menu text is answered with
  the error \<^verbatim>\<open>Missing data\<close>. The steps behind the guard would produce the empty sequence
  for it, and a menu text made of one line feed does get the empty result sequence as a
  normal outcome.
\<close>

theorem empty_text_rejected:
  "recommend c \<lparr>menuText = Some [], profile = Some p\<rparr> = Inl MissingData
   \<and> sortResults (results c p []) = []
   \<and> recommend c \<lparr>menuText = Some [CHR 0x0A], profile = Some p\<rparr> = Inr []"
  by (simp add: recommend_def sortResults_def results_def dishes_def)

text \<open>
  C4. The empty menu text has no result sequence at all: the guard answers it with the error.
  And the handler keeps every line that is not the empty string, trimming nothing: in the
  menu \<^verbatim>\<open>Soup\<close>, two spaces, \<^verbatim>\<open>Salad\<close> the middle line is kept as a dish of its own,
  so there are three results where two lines are non-empty after trimming.
\<close>

theorem blank_line_is_a_dish:
  "recommend scenarioCatalog \<lparr>menuText = Some [], profile = Some scenarioProfile\<rparr>
     = Inl MissingData
   \<and> map dish (projr (recommend scenarioCatalog blankLineRequest)) = [''Soup'', ''  '', ''Salad'']
   \<and> trimmedLines blankLineMenu = [''Soup'', ''Salad'']"
  by (simp add: run_defs garlic_def peanuts_def scenarioCatalog_def scenarioProfile_def blankLineMenu_def blankLineRequest_def trimmedLines_def trim_def isWhiteSpace_def)

text \<open>
  C4, as far as the code goes by design: for every non-empty menu text the handler returns
  a result sequence in which every line with non-empty trimmed content is the dish of as
  many results as the menu text has such lines (none is dropped, whatever its score), and,
  when no line of the menu text consists of whitespace only, the length of the result
  sequence is the number of lines that are non-empty after trimming.
\<close>

theorem one_result_per_line:
  assumes "menuText req = Some text" and "text \<noteq> []" and "profile req = Some p"
  shows "\<exists>rs. recommend c req = Inr rs
              \<and> (trim l \<noteq> [] \<longrightarrow> count_list (map dish rs) l = count_list (split_nl text) l)
              \<and> (noBlankLines text \<longrightarrow> length rs = length (trimmedLines text))"
proof -
  let ?rs = "sortResults (results c p text)"
  have r: "recommend c req = Inr ?rs"
    using assms by (rule recommend_results)
  have "mset (map dish ?rs) = mset (map dish (results c p text))"
    by (simp only: mset_map mset_sortResults)
  then have "mset (map dish ?rs) = mset (dishes text)"
    by (simp only: dish_of_results)
  then have "count (mset (map dish ?rs)) l = count (mset (dishes text)) l"
    by simp
  then have cnt: "count_list (map dish ?rs) l = count_list (dishes text) l"
    by (simp only: count_mset)
  have kept: "count_list (map dish ?rs) l = count_list (split_nl text) l" if "trim l \<noteq> []"
  proof -
    from that have "l \<noteq> []" using trim_empty by auto
    then show ?thesis unfolding cnt dishes_def by (simp add: count_list_filter)
  qed
  have len: "length ?rs = length (trimmedLines text)" if "noBlankLines text"
  proof -
    have "length ?rs = length (dishes text)"
      using r assms(1) by (rule result_length)
    then show ?thesis
      by (simp only: dishes_noBlankLines [OF that] length_trimmedLines)
  qed
  from r kept len show ?thesis by blast
qed

theorem one_result_per_line_witness:
  "noBlankLines paddedMenu \<and> trim ''  Peanuts'' = ''Peanuts''
   \<and> recommend scenarioCatalog paddedRequest \<noteq> Inl MissingData
   \<and> map dish (projr (recommend scenarioCatalog paddedRequest)) = [''Garlic Chicken '', ''  Peanuts'']
   \<and> map score (projr (recommend scenarioCatalog paddedRequest)) = [2, - 999]
   \<and> count_list (split_nl paddedMenu) ''  Peanuts'' = 1
   \<and> length (trimmedLines paddedMenu) = 2"
proof -
  have m: "menuText paddedRequest = Some paddedMenu" and n: "paddedMenu \<noteq> []"
    and p: "profile paddedRequest = Some scenarioProfile"
    by (simp_all add: paddedRequest_def paddedMenu_def)
  have b: "noBlankLines paddedMenu"
    by (simp add: noBlankLines_def paddedMenu_def trim_def isWhiteSpace_def)
  have t: "trim ''  Peanuts'' = ''Peanuts''"
    by (simp add: trim_def isWhiteSpace_def)
  from one_result_per_line [OF m n p, of scenarioCatalog "''  Peanuts''"] b t
  obtain rs where rs: "recommend scenarioCatalog paddedRequest = Inr rs"
    and cnt: "count_list (map dish rs) ''  Peanuts'' = count_list (split_nl paddedMenu) ''  Peanuts''"
    and len: "length rs = length (trimmedLines paddedMenu)"
    by auto
  have e: "recommend scenarioCatalog paddedRequest
             = Inr [scoreDish scenarioCatalog scenarioProfile ''Garlic Chicken '',
                    scoreDish scenarioCatalog scenarioProfile ''  Peanuts'']"
    by (simp add: run_defs garlic_def peanuts_def scenarioCatalog_def scenarioProfile_def paddedRequest_def paddedMenu_def)
  from rs e have v: "rs = [scoreDish scenarioCatalog scenarioProfile ''Garlic Chicken '',
                           scoreDish scenarioCatalog scenarioProfile ''  Peanuts'']"
    by (simp only: sum.inject)
  from v len have l: "length (trimmedLines paddedMenu) = 2" by simp
  from v cnt have k: "count_list (split_nl paddedMenu) ''  Peanuts'' = 1"
    by (simp add: scoreDish_fields)
  have d: "map dish (projr (recommend scenarioCatalog paddedRequest))
             = [''Garlic Chicken '', ''  Peanuts'']"
    and s: "map score (projr (recommend scenarioCatalog paddedRequest)) = [2, - 999]"
    unfolding e by (simp_all add: run_defs garlic_def peanuts_def scenarioCatalog_def scenarioProfile_def)
  from b t rs l k d s show ?thesis by simp
qed

text \<open>
  C5. The claimed precedence puts dislike above like. In the code an id that is in both
  \<^verbatim>\<open>like\<close> and \<^verbatim>\<open>dislike\<close> takes the like branch: with garlic in both, the line
  \<^verbatim>\<open>Garlic Chicken\<close> has garlic among the liked matches, none among the disliked, and score 2.
\<close>

theorem like_and_dislike_is_liked:
  "matchedDisliked (scoreDish scenarioCatalog overlapProfile ''Garlic Chicken'') = []
   \<and> matchedLiked (scoreDish scenarioCatalog overlapProfile ''Garlic Chicken'') = [''garlic'']
   \<and> score (scoreDish scenarioCatalog overlapProfile ''Garlic Chicken'') = 2"
  by (simp add: run_defs garlic_def peanuts_def scenarioCatalog_def scenarioProfile_def overlapProfile_def)

text \<open>
  C5, as the code has it: the precedence is avoid over like over dislike. The avoid matches
  are the resolved entries whose id is in \<^verbatim>\<open>avoid\<close>, whatever other bucket holds the id; the
  liked matches are those outside \<^verbatim>\<open>avoid\<close> whose id is in \<^verbatim>\<open>like\<close>, whether or not it is
  in \<^verbatim>\<open>dislike\<close> too; the disliked matches are those in \<^verbatim>\<open>dislike\<close> and in neither of the
  other two.
\<close>

theorem precedence_avoid_like_dislike:
  "matchedAvoid (scoreDish c p d) = map name (inBucket (avoid p) (resolved c d))
   \<and> matchedLiked (scoreDish c p d) =
       map name (inBucket (like p) (outOfBucket (avoid p) (resolved c d)))
   \<and> matchedDisliked (scoreDish c p d) =
       map name (inBucket (dislike p) (outOfBucket (like p) (outOfBucket (avoid p) (resolved c d))))"
  by (simp add: matchedAvoid_scoreDish matchedLiked_scoreDish matchedDisliked_scoreDish)

text \<open>
  C6. When the handler returns results, they are in descending order of score, and for
  every score \<open>k\<close> the dishes with score \<open>k\<close> stand in the result in the order in which
  their lines stand in the menu text.
\<close>

theorem results_sorted_stable:
  assumes "menuText req = Some text" and "profile req = Some p"
    and "recommend c req = Inr rs"
  shows "sorted_wrt (\<lambda>a b. score b \<le> score a) rs
         \<and> filter (\<lambda>r. score r = k) rs
             = filter (\<lambda>r. score r = k) (map (scoreDish c p) (dishes text))"
proof -
  from assms have rs: "rs = sort_key (\<lambda>r. - score r) (map (scoreDish c p) (dishes text))"
    by (simp add: recommend_def sortResults_def results_def split: if_splits)
  have "sorted (map (\<lambda>r. - score r) rs)"
    unfolding rs by (rule sorted_sort_key)
  then have desc: "sorted_wrt (\<lambda>a b. score b \<le> score a) rs"
    by (simp add: sorted_map)
  have "filter (\<lambda>r. - score r = - k) rs
          = filter (\<lambda>r. - score r = - k) (map (scoreDish c p) (dishes text))"
    unfolding rs by (rule sort_key_stable)
  then have "filter (\<lambda>r. score r = k) rs
          = filter (\<lambda>r. score r = k) (map (scoreDish c p) (dishes text))"
    by simp
  with desc show ?thesis by simp
qed

theorem results_sorted_stable_witness:
  "recommend scenarioCatalog tieRequest = Inr tieResults
   \<and> map dish (map (scoreDish scenarioCatalog scenarioProfile) (dishes tieMenu))
       = [''Soup'', ''Garlic Bread'', ''Salad'']
   \<and> sorted_wrt (\<lambda>a b. score b \<le> score a) tieResults
   \<and> map dish (filter (\<lambda>r. score r = 0) tieResults) = [''Soup'', ''Salad'']"
proof -
  have m: "menuText tieRequest = Some tieMenu" and p: "profile tieRequest = Some scenarioProfile"
    by (simp_all add: tieRequest_def)
  have r: "recommend scenarioCatalog tieRequest = Inr tieResults"
    by (simp add: run_defs garlic_def peanuts_def scenarioCatalog_def scenarioProfile_def tieMenu_def tieRequest_def tieResults_def)
  have d: "map dish (map (scoreDish scenarioCatalog scenarioProfile) (dishes tieMenu))
             = [''Soup'', ''Garlic Bread'', ''Salad'']"
    by (simp add: run_defs garlic_def peanuts_def scenarioCatalog_def scenarioProfile_def tieMenu_def)
  have f: "map dish (filter (\<lambda>r. score r = 0) tieResults) = [''Soup'', ''Salad'']"
    by (simp add: tieResults_def)
  have "sorted_wrt (\<lambda>a b. score b \<le> score a) tieResults
        \<and> filter (\<lambda>r. score r = 0) tieResults
            = filter (\<lambda>r. score r = 0) (map (scoreDish scenarioCatalog scenarioProfile)
                                              (dishes tieMenu))"
    using m p r by (rule results_sorted_stable)
  then have "sorted_wrt (\<lambda>a b. score b \<le> score a) tieResults" ..
  with r d f show ?thesis by blast
qed

text \<open>
  C7. Only the dish line is lowered; the names and aliases of the catalog are compared as
  they are stored. An entry stored as \<^verbatim>\<open>Garlic\<close> occurs in \<^verbatim>\<open>Garlic Chicken\<close> as a
  case-insensitive substring and is not resolved there.
\<close>

theorem capital_name_not_resolved:
  "occurs_ci (name capitalGarlic) ''Garlic Chicken''
   \<and> capitalGarlic \<notin> set (resolved [capitalGarlic] ''Garlic Chicken'')"
  by (simp add: occurs_ci_def str_includes_sublist [symmetric] run_defs capitalGarlic_def)

text \<open>
  C7, as the code has it: for every catalog ingredient whose name and aliases are stored in
  lower case, and every text, the ingredient is resolved exactly when its name or one of its
  aliases occurs in the text as a case-insensitive substring. So cilantro with the alias
  \<^verbatim>\<open>coriander leaf\<close> is found in the text \<^verbatim>\<open>Coriander Leaf garnish.\<close>
\<close>

theorem resolved_iff_occurs:
  assumes "ing \<in> set c" and "storedLower ing"
  shows "ing \<in> set (resolved c text) \<longleftrightarrow> occurs_ci (name ing) text \<or> anyAliasOccurs ing text"
proof -
  from assms(2) have n: "toLowerCase (name ing) = name ing"
    and a: "\<And>x. x \<in> set (aliases ing) \<Longrightarrow> toLowerCase x = x"
    by (simp_all add: storedLower_def list_all_iff)
  have "list_ex (\<lambda>x. str_includes (toLowerCase text) x) (aliases ing)
          = list_ex (\<lambda>x. occurs_ci x text) (aliases ing)"
    using a by (auto simp: list_ex_iff occurs_ci_def str_includes_sublist)
  with assms(1) n show ?thesis
    by (simp add: resolved_def matches_def anyAliasOccurs_def occurs_ci_def str_includes_sublist)
qed

theorem resolved_iff_occurs_witness:
  "cilantro \<in> set catalog4 \<and> storedLower cilantro
   \<and> \<not> occurs_ci (name cilantro) ''Coriander Leaf garnish.''
   \<and> anyAliasOccurs cilantro ''Coriander Leaf garnish.''
   \<and> cilantro \<in> set (resolved catalog4 ''Coriander Leaf garnish.'')"
proof -
  have c: "cilantro \<in> set catalog4" by (simp add: catalog4_def)
  have s: "storedLower cilantro"
    by (simp add: storedLower_def cilantro_def toLowerCase_def lowerChar_def)
  have n: "\<not> occurs_ci (name cilantro) ''Coriander Leaf garnish.''"
    by (simp add: occurs_ci_def str_includes_sublist [symmetric] run_defs cilantro_def)
  have a: "anyAliasOccurs cilantro ''Coriander Leaf garnish.''"
    by (simp add: anyAliasOccurs_def occurs_ci_def str_includes_sublist [symmetric]
                  run_defs cilantro_def)
  from resolved_iff_occurs [OF c s, of "''Coriander Leaf garnish.''"] c s n a
  show ?thesis by simp
qed

text \<open>
  C8. The claimed score subtracts 1 for every resolved ingredient whose id is in \<^verbatim>\<open>dislike\<close>.
  With garlic in both \<^verbatim>\<open>like\<close> and \<^verbatim>\<open>dislike\<close> and nothing in \<^verbatim>\<open>avoid\<close>, the line
  \<^verbatim>\<open>Garlic Bread\<close> scores 2, not 2 * 1 - 1.
\<close>

theorem overlap_score_is_not_like_minus_dislike:
  "inBucket (avoid overlapProfile) (resolved scenarioCatalog ''Garlic Bread'') = []
   \<and> score (scoreDish scenarioCatalog overlapProfile ''Garlic Bread'')
       \<noteq> 2 * int (length (inBucket (like overlapProfile) (resolved scenarioCatalog ''Garlic Bread'')))
         - int (length (inBucket (dislike overlapProfile)
                          (resolved scenarioCatalog ''Garlic Bread'')))"
  by (simp add: run_defs garlic_def peanuts_def scenarioCatalog_def scenarioProfile_def overlapProfile_def)

text \<open>
  C8, as the code has it: for every dish line none of whose resolved ingredients is in the
  avoid set, the score is 2 times the number of resolved ingredients whose id is in
  \<^verbatim>\<open>like\<close>, minus the number of resolved ingredients whose id is in \<^verbatim>\<open>dislike\<close> and not
  in \<^verbatim>\<open>like\<close>. Resolved ingredients in no bucket contribute nothing.
\<close>

theorem score_without_avoid:
  assumes "inBucket (avoid p) (resolved c d) = []"
  shows "score (scoreDish c p d) =
           2 * int (length (inBucket (like p) (resolved c d)))
           - int (length (inBucket (dislike p) (outOfBucket (like p) (resolved c d))))"
  using assms score_foldl [of p "toLowerCase d" c tally0]
  by (simp add: scoreDish_fields tallyDish_def resolved_def tally0_def)

theorem score_without_avoid_witness:
  "inBucket (avoid tasteProfile4) (resolved catalog4 ''Garlic olive dip, no cilantro'') = []
   \<and> score (scoreDish catalog4 tasteProfile4 ''Garlic olive dip, no cilantro'') = 0"
  using score_without_avoid [of tasteProfile4 catalog4 "''Garlic olive dip, no cilantro''"]
  by (simp add: run_defs garlic_def peanuts_def cilantro_def olives_def catalog4_def tasteProfile4_def)

text \<open>
  C9. For every dish line and every name \<open>n\<close>, the three matched lists of the dish together
  hold \<open>n\<close> at most as often as the resolved catalog entries carry that name, which is at
  most as often as the catalog does: an entry contributes its name at most once, however
  many of its name and aliases occur in the line and however often.
\<close>

theorem matched_at_most_once:
  "count_list (matchedLiked (scoreDish c p d) @ matchedDisliked (scoreDish c p d)
               @ matchedAvoid (scoreDish c p d)) n
     \<le> count_list (map name (resolved c d)) n
   \<and> count_list (map name (resolved c d)) n \<le> count_list (map name c) n"
  using count_three_branches [where f = name and a = "avoid p" and l = "like p"
                                and d = "dislike p" and xs = "resolved c d" and n = n]
  by (simp add: matchedAvoid_scoreDish matchedLiked_scoreDish matchedDisliked_scoreDish
                resolved_def count_filter_le)

text \<open>
  C10. Two catalog entries may carry the same name under different ids. With \<^verbatim>\<open>nut\<close> listed
  once under a liked id and once under an avoided id, the line \<^verbatim>\<open>nut cake\<close> has the name
  in both \<^verbatim>\<open>matchedLiked\<close> and \<^verbatim>\<open>matchedAvoid\<close>.
\<close>

theorem same_name_in_two_lists:
  "matchedLiked (scoreDish [nutA, nutB] nutProfile ''nut cake'') = [''nut'']
   \<and> matchedAvoid (scoreDish [nutA, nutB] nutProfile ''nut cake'') = [''nut'']
   \<and> set (matchedLiked (scoreDish [nutA, nutB] nutProfile ''nut cake''))
       \<inter> set (matchedAvoid (scoreDish [nutA, nutB] nutProfile ''nut cake'')) \<noteq> {}"
  by (simp add: run_defs nutA_def nutB_def nutProfile_def)

text \<open>
  C10, as the code has it: when the names of the catalog are pairwise distinct, the three
  matched lists of every dish are pairwise disjoint, and the name of a catalog ingredient
  whose id is in no bucket is in none of them.
\<close>

theorem matched_lists_disjoint:
  assumes "distinct (map name c)"
  shows "set (matchedLiked (scoreDish c p d)) \<inter> set (matchedDisliked (scoreDish c p d)) = {}
         \<and> set (matchedLiked (scoreDish c p d)) \<inter> set (matchedAvoid (scoreDish c p d)) = {}
         \<and> set (matchedDisliked (scoreDish c p d)) \<inter> set (matchedAvoid (scoreDish c p d)) = {}
         \<and> (ing \<in> set c \<and> ing_id ing \<notin> set (avoid p) \<union> set (like p) \<union> set (dislike p)
              \<longrightarrow> name ing \<notin> set (matchedLiked (scoreDish c p d))
                                \<union> set (matchedDisliked (scoreDish c p d))
                                \<union> set (matchedAvoid (scoreDish c p d)))"
proof -
  let ?A = "\<lambda>i. matches (toLowerCase d) i \<and> ing_id i \<in> set (avoid p)"
  let ?L = "\<lambda>i. matches (toLowerCase d) i \<and> ing_id i \<notin> set (avoid p) \<and> ing_id i \<in> set (like p)"
  let ?D = "\<lambda>i. matches (toLowerCase d) i \<and> ing_id i \<notin> set (avoid p) \<and> ing_id i \<notin> set (like p)
                 \<and> ing_id i \<in> set (dislike p)"
  let ?N = "\<lambda>i. i = ing"
  have a: "matchedAvoid (scoreDish c p d) = map name (filter ?A c)"
    by (simp add: matchedAvoid_scoreDish resolved_def inBucket_def conj_commute)
  have l: "matchedLiked (scoreDish c p d) = map name (filter ?L c)"
    by (simp add: matchedLiked_scoreDish resolved_def inBucket_def outOfBucket_def conj_ac)
  have dl: "matchedDisliked (scoreDish c p d) = map name (filter ?D c)"
    by (simp add: matchedDisliked_scoreDish resolved_def inBucket_def outOfBucket_def conj_ac)
  have ld: "set (map name (filter ?L c)) \<inter> set (map name (filter ?D c)) = {}"
    using assms by (rule disjoint_names) blast
  have la: "set (map name (filter ?L c)) \<inter> set (map name (filter ?A c)) = {}"
    using assms by (rule disjoint_names) blast
  have da: "set (map name (filter ?D c)) \<inter> set (map name (filter ?A c)) = {}"
    using assms by (rule disjoint_names) blast
  have neutral: "name ing \<notin> set (map name (filter ?L c)) \<union> set (map name (filter ?D c))
                             \<union> set (map name (filter ?A c))"
    if "ing \<in> set c" and "ing_id ing \<notin> set (avoid p) \<union> set (like p) \<union> set (dislike p)"
  proof -
    have n: "set (map name (filter ?N c)) = {name ing}" using that(1) by auto
    have "set (map name (filter ?N c)) \<inter> set (map name (filter ?L c)) = {}"
      using assms by (rule disjoint_names) (use that(2) in blast)
    moreover have "set (map name (filter ?N c)) \<inter> set (map name (filter ?D c)) = {}"
      using assms by (rule disjoint_names) (use that(2) in blast)
    moreover have "set (map name (filter ?N c)) \<inter> set (map name (filter ?A c)) = {}"
      using assms by (rule disjoint_names) (use that(2) in blast)
    ultimately show ?thesis unfolding n by blast
  qed
  show ?thesis unfolding a l dl using ld la da neutral by blast
qed

theorem matched_lists_disjoint_witness:
  "distinct (map name catalog4)
   \<and> olives \<in> set (resolved catalog4 ''Garlic olives with peanuts'')
   \<and> ing_id olives \<notin> set (avoid scenarioProfile) \<union> set (like scenarioProfile)
                        \<union> set (dislike scenarioProfile)
   \<and> matchedLiked (scoreDish catalog4 scenarioProfile ''Garlic olives with peanuts'') = [''garlic'']
   \<and> matchedAvoid (scoreDish catalog4 scenarioProfile ''Garlic olives with peanuts'') = [''peanuts'']
   \<and> set (matchedLiked (scoreDish catalog4 scenarioProfile ''Garlic olives with peanuts''))
       \<inter> set (matchedAvoid (scoreDish catalog4 scenarioProfile ''Garlic olives with peanuts'')) = {}
   \<and> name olives \<notin> set (matchedLiked (scoreDish catalog4 scenarioProfile ''Garlic olives with peanuts''))
                     \<union> set (matchedDisliked (scoreDish catalog4 scenarioProfile ''Garlic olives with peanuts''))
                     \<union> set (matchedAvoid (scoreDish catalog4 scenarioProfile ''Garlic olives with peanuts''))"
proof -
  have d: "distinct (map name catalog4)"
    by (simp add: garlic_def peanuts_def cilantro_def olives_def catalog4_def)
  have o: "olives \<in> set catalog4"
    and n: "ing_id olives \<notin> set (avoid scenarioProfile) \<union> set (like scenarioProfile)
                             \<union> set (dislike scenarioProfile)"
    by (simp_all add: garlic_def peanuts_def cilantro_def olives_def catalog4_def scenarioProfile_def)
  have r: "olives \<in> set (resolved catalog4 ''Garlic olives with peanuts'')"
    by (simp add: run_defs garlic_def peanuts_def cilantro_def olives_def catalog4_def)
  have l: "matchedLiked (scoreDish catalog4 scenarioProfile ''Garlic olives with peanuts'')
             = [''garlic'']"
    and a: "matchedAvoid (scoreDish catalog4 scenarioProfile ''Garlic olives with peanuts'')
             = [''peanuts'']"
    by (simp_all add: run_defs garlic_def peanuts_def cilantro_def olives_def catalog4_def scenarioProfile_def)
  from matched_lists_disjoint [OF d, of scenarioProfile "''Garlic olives with peanuts''" olives]
       o n
  have "set (matchedLiked (scoreDish catalog4 scenarioProfile ''Garlic olives with peanuts''))
          \<inter> set (matchedAvoid (scoreDish catalog4 scenarioProfile ''Garlic olives with peanuts'')) = {}"
    and "name olives \<notin> set (matchedLiked (scoreDish catalog4 scenarioProfile ''Garlic olives with peanuts''))
                     \<union> set (matchedDisliked (scoreDish catalog4 scenarioProfile ''Garlic olives with peanuts''))
                     \<union> set (matchedAvoid (scoreDish catalog4 scenarioProfile ''Garlic olives with peanuts''))"
    by blast+
  with d r n l a show ?thesis by blast
qed

end
